theory Spec2Isabelle
  imports Main "HOL-Library.AList" "HOL-Library.Sublist"
begin

section \<open>The chat hook \<open>useChatWebSocket\<close> (src/useChatWebSocket.ts)\<close>

text \<open>
  The hook keeps three pieces of React state (\<open>receivedMessages\<close>, \<open>typingUsers\<close>,
  \<open>activeUsers\<close>), a mutable registry of timer handles (\<open>typingTimeouts\<close>), and talks to
  one \<open>WebSocket\<close>. Everything runs on the single-threaded event loop, so the model is a
  record of the whole state and one function per callback of the source, each taking the
  state and returning the new one. A functional state update \<open>setX(prev => ...)\<close> is
  applied once, at the call.

  \<open>JSON.parse\<close> and \<open>JSON.stringify\<close> are built-ins of the platform, not code of the
  repository: they are parameters of the functions that call them (\<open>JSON_parse\<close> gives
  \<open>None\<close> where the built-in throws a SyntaxError).
\<close>

subsection \<open>JavaScript values\<close>

text \<open>
  The inbound payload is typed \<open>any\<close>, so the handler works on whatever \<open>JSON.parse\<close>
  returns. A number is carried by its canonical decimal text (what \<open>Number.prototype.toString\<close>
  prints): the source never computes with one, it only compares them and uses them as
  property keys. \<open>Undefined\<close> is what reading a missing property gives.
\<close>

datatype number = Number (Number_toString: string)

datatype jsval =
    Undefined
  | Null
  | Bool bool
  | Num number
  | Str string
  | Arr "jsval list"
  | Obj "(string \<times> jsval) list"

text \<open>
  Reading a property \<open>data.k\<close> of a value that is neither \<open>null\<close> nor \<open>undefined\<close>.
  An object is the list of its own properties (\<open>JSON.parse\<close> leaves one entry per key).
  The keys the source reads (\<open>type\<close>, \<open>id\<close>, \<open>sender\<close>, \<open>content\<close>, \<open>media\<close>, \<open>seen_by\<close>,
  \<open>timestamp\<close>, \<open>username\<close>, \<open>active_users\<close>) are properties of no prototype, so on a
  string, number, boolean or array the read gives \<open>undefined\<close>.
\<close>

fun get_property :: "jsval \<Rightarrow> string \<Rightarrow> jsval" where
  "get_property (Obj kvs) k = (case map_of kvs k of Some v \<Rightarrow> v | None \<Rightarrow> Undefined)"
| "get_property _ k = Undefined"

text \<open>The operator \<open>a ?? b\<close>.\<close>

definition nullish :: "jsval \<Rightarrow> jsval \<Rightarrow> jsval" where
  "nullish a b = (if a = Undefined \<or> a = Null then b else a)"

text \<open>
  \<open>ToString\<close>, which turns the index of \<open>typingTimeouts.current[username]\<close> into a property
  key. An array prints its elements joined by commas, \<open>null\<close> and \<open>undefined\<close> as nothing.
\<close>

fun join :: "string list \<Rightarrow> string" where
  "join [] = []"
| "join [x] = x"
| "join (x # y # ys) = x @ '','' @ join (y # ys)"

fun ToString :: "jsval \<Rightarrow> string" where
  "ToString Undefined = ''undefined''"
| "ToString Null = ''null''"
| "ToString (Bool b) = (if b then ''true'' else ''false'')"
| "ToString (Num n) = Number_toString n"
| "ToString (Str s) = s"
| "ToString (Arr xs) =
     join (map (\<lambda>x. if x = Undefined \<or> x = Null then [] else ToString x) xs)"
| "ToString (Obj kvs) = ''[object Object]''"

subsection \<open>Values the hook compares\<close>

text \<open>
  JavaScript compares primitives by content and arrays and objects by reference. The hook
  compares values in one place only, the typing set (\<open>includes\<close> in \<open>handleTyping\<close>, \<open>!==\<close> in
  the two filters). So an entry of the typing set, and the \<open>username\<close> a timeout closes
  over, is a value as above but for an array or an object, which comes with the address
  it lives at: two of them are the same when they live at the same address. \<open>includes\<close>
  and \<open>!==\<close> agree on every value \<open>JSON.parse\<close> can return.
\<close>

datatype held =
    UndefinedValue
  | NullValue
  | BoolValue bool
  | NumValue number
  | StrValue string
  | ArrAt nat "jsval list"
  | ObjAt nat "(string \<times> jsval) list"

fun held_value :: "held \<Rightarrow> jsval" where
  "held_value UndefinedValue = Undefined"
| "held_value NullValue = Null"
| "held_value (BoolValue b) = Bool b"
| "held_value (NumValue n) = Num n"
| "held_value (StrValue t) = Str t"
| "held_value (ArrAt a xs) = Arr xs"
| "held_value (ObjAt a kvs) = Obj kvs"

fun same_value :: "held \<Rightarrow> held \<Rightarrow> bool" where
  "same_value (ArrAt a xs) (ArrAt a' xs') = (a = a')"
| "same_value (ObjAt a kvs) (ObjAt a' kvs') = (a = a')"
| "same_value x y = (x = y)"

definition array_includes :: "held list \<Rightarrow> held \<Rightarrow> bool" where
  "array_includes xs x = list_ex (\<lambda>y. same_value y x) xs"

subsection \<open>The state\<close>

text \<open>The interface \<open>ReceivedMessage\<close>; the payload is unchecked, so every field holds a value.\<close>

record ReceivedMessage =
  msg_type :: string
  msg_id :: jsval
  sender :: jsval
  content :: jsval
  media :: jsval
  timestamp :: jsval
  seen_by :: jsval

text \<open>
  The socket the connection hook hands over: its ready state, whether its \<open>onmessage\<close>
  slot holds the handler of this hook (\<open>False\<close>: the slot is \<open>null\<close>), and the texts
  written to it with \<open>send\<close>, oldest first.
\<close>

record WebSocket =
  readyState :: nat
  onmessage :: bool
  sent :: "string list"

definition OPEN :: nat where
  "OPEN = 1"

text \<open>
  A pending timeout of the platform: its handle, the time it is due at, and the
  \<open>username\<close> its callback closes over (every timeout of the hook runs the same callback).
\<close>

type_synonym timer = "nat \<times> nat \<times> held"

text \<open>
  The state of the hook and of the platform around it: the socket, the three pieces of
  React state, the registry \<open>typingTimeouts.current\<close>, then the pending timeouts, the next
  timer handle and the time in milliseconds, what was written to the console, and the
  next free address for an array or object that enters the typing set.
  The registry is the plain object of the source, as the list of its own properties.
\<close>

record hook =
  ws :: "WebSocket option"
  receivedMessages :: "ReceivedMessage list"
  typingUsers :: "held list"
  activeUsers :: jsval
  typingTimeouts :: "(string \<times> nat) list"
  timers :: "timer list"
  nextHandle :: nat
  clock :: nat
  console :: "(string \<times> jsval) list"
  nextAddress :: nat

text \<open>The state at the first render, around the socket (or \<open>null\<close>) of the connection hook.\<close>

definition init :: "WebSocket option \<Rightarrow> hook" where
  "init w = \<lparr> ws = w, receivedMessages = [], typingUsers = [], activeUsers = Arr [],
     typingTimeouts = [], timers = [], nextHandle = 1, clock = 0, console = [],
     nextAddress = 0 \<rparr>"

subsection \<open>The platform's timers\<close>

text \<open>
  \<open>setTimeout\<close> returns a fresh handle; handles are positive, so a registered handle is
  truthy. \<open>clearTimeout\<close> of a handle that is not pending does nothing.
\<close>

definition setTimeout :: "held \<Rightarrow> nat \<Rightarrow> hook \<Rightarrow> nat \<times> hook" where
  "setTimeout username delay s =
     (nextHandle s,
      s\<lparr> timers := timers s @ [(nextHandle s, clock s + delay, username)],
         nextHandle := Suc (nextHandle s) \<rparr>)"

definition clearTimeout :: "nat \<Rightarrow> hook \<Rightarrow> hook" where
  "clearTimeout h s = s\<lparr> timers := filter (\<lambda>t. fst t \<noteq> h) (timers s) \<rparr>"

subsection \<open>The callbacks of the hook\<close>

definition logEvent :: "bool \<Rightarrow> string \<Rightarrow> jsval \<Rightarrow> hook \<Rightarrow> hook" where
  "logEvent log label payload s =
     (if log then s\<lparr> console := console s @ [(label, nullish payload (Str ''''))] \<rparr> else s)"

definition sendWS :: "(jsval \<Rightarrow> string) \<Rightarrow> bool \<Rightarrow> jsval \<Rightarrow> hook \<Rightarrow> bool \<times> hook" where
  "sendWS JSON_stringify log payload s =
     (case ws s of
        None \<Rightarrow> (False, logEvent log ''WebSocket not connected'' Undefined s)
      | Some w \<Rightarrow>
          if readyState w \<noteq> OPEN
          then (False, logEvent log ''WebSocket not connected'' Undefined s)
          else (True,
                s\<lparr> ws := Some (w\<lparr> sent := sent w @
                       [case payload of Str t \<Rightarrow> t | _ \<Rightarrow> JSON_stringify payload] \<rparr>) \<rparr>))"

text \<open>
  The registry \<open>typingTimeouts.current\<close> is a plain object used as a dictionary.

  Reading \<open>registry[key]\<close> gives the handle stored under \<open>key\<close> when the object has such a
  property of its own. Otherwise it gives \<open>undefined\<close> or what \<open>Object.prototype\<close> has under
  that name (a method, or for \<open>__proto__\<close> the prototype itself): whether truthy or not,
  that is no handle of a pending timeout, and \<open>clearTimeout\<close> of it clears nothing. \<open>None\<close>
  stands for all of these.

  Assigning \<open>registry[key] = handle\<close> makes or updates a property of the object's own,
  for every key but \<open>__proto__\<close>: that assignment goes to the setter of
  \<open>Object.prototype\<close>, which ignores a value that is not an object (a timer handle is a
  number), so nothing is stored. \<open>delete registry[key]\<close> removes an own property.
\<close>

definition registry_read :: "(string \<times> nat) list \<Rightarrow> string \<Rightarrow> nat option" where
  "registry_read registry key = (if key = ''__proto__'' then None else map_of registry key)"

definition registry_write :: "string \<Rightarrow> nat \<Rightarrow> (string \<times> nat) list \<Rightarrow> (string \<times> nat) list" where
  "registry_write key h registry =
     (if key = ''__proto__'' then registry else AList.update key h registry)"

text \<open>The callback of the timeout that \<open>handleTyping\<close> starts for \<open>username\<close>.\<close>

definition typingExpired :: "held \<Rightarrow> hook \<Rightarrow> hook" where
  "typingExpired username s =
     s\<lparr> typingUsers := filter (\<lambda>user. \<not> same_value user username) (typingUsers s),
        typingTimeouts := AList.delete (ToString (held_value username)) (typingTimeouts s) \<rparr>"

definition handleTyping :: "held \<Rightarrow> hook \<Rightarrow> hook" where
  "handleTyping username s =
     (if array_includes (typingUsers s) username then s
      else
        let updated = typingUsers s @ [username];
            s1 = (case registry_read (typingTimeouts s) (ToString (held_value username)) of
                    Some h \<Rightarrow> clearTimeout h s
                  | None \<Rightarrow> s);
            (h, s2) = setTimeout username 3000 s1
        in s2\<lparr> typingTimeouts :=
                 registry_write (ToString (held_value username)) h (typingTimeouts s2),
               typingUsers := updated \<rparr>)"

text \<open>
  The value read as \<open>data.username\<close>, as \<open>handleTyping\<close> receives it. Every call of
  \<open>JSON.parse\<close> makes new arrays and objects, so one that is read from its result lives at
  an address that no value held so far has.
\<close>

definition hold :: "jsval \<Rightarrow> hook \<Rightarrow> held \<times> hook" where
  "hold v s =
     (case v of
        Undefined \<Rightarrow> (UndefinedValue, s)
      | Null \<Rightarrow> (NullValue, s)
      | Bool b \<Rightarrow> (BoolValue b, s)
      | Num n \<Rightarrow> (NumValue n, s)
      | Str t \<Rightarrow> (StrValue t, s)
      | Arr xs \<Rightarrow> (ArrAt (nextAddress s) xs, s\<lparr> nextAddress := Suc (nextAddress s) \<rparr>)
      | Obj kvs \<Rightarrow> (ObjAt (nextAddress s) kvs, s\<lparr> nextAddress := Suc (nextAddress s) \<rparr>))"

datatype js_error = TypeError

text \<open>
  The handler installed as \<open>ws.onmessage\<close>, on the text \<open>e.data\<close>. Reading \<open>data.type\<close> of
  \<open>null\<close> throws, and nothing in the handler catches it.
\<close>

definition ws_onmessage :: "(string \<Rightarrow> jsval option) \<Rightarrow> bool \<Rightarrow> string \<Rightarrow> hook \<Rightarrow> js_error + hook" where
  "ws_onmessage JSON_parse log e_data s =
     (case JSON_parse e_data of
        None \<Rightarrow> Inr (logEvent log ''Invalid JSON:'' (Str e_data) s)
      | Some data \<Rightarrow>
          if data = Null \<or> data = Undefined then Inl TypeError
          else if get_property data ''type'' = Str ''message'' then
            Inr ((logEvent log ''Message event:'' data s)
                  \<lparr> receivedMessages := receivedMessages s @
                      [\<lparr> msg_type = ''message'',
                         msg_id = get_property data ''id'',
                         sender = get_property data ''sender'',
                         content = get_property data ''content'',
                         media = get_property data ''media'',
                         timestamp = get_property data ''timestamp'',
                         seen_by = get_property data ''seen_by'' \<rparr>] \<rparr>)
          else if get_property data ''type'' = Str ''typing'' then
            Inr (case hold (get_property data ''username'') (logEvent log ''Typing event:'' data s) of
                   (username, s1) \<Rightarrow> handleTyping username s1)
          else if get_property data ''type'' = Str ''seen'' then
            Inr (logEvent log ''Seen event:'' data s)
          else if get_property data ''type'' = Str ''user_status'' then
            Inr ((logEvent log ''Users Status:'' data s)
                  \<lparr> activeUsers := nullish (get_property data ''active_users'') (Arr []) \<rparr>)
          else Inr (logEvent log ''Unhandled event:'' data s))"

text \<open>The body of the effect, and the cleanup it returns (none when \<open>ws\<close> is \<open>null\<close>).\<close>

definition effect :: "hook \<Rightarrow> hook" where
  "effect s =
     (case ws s of
        None \<Rightarrow> s
      | Some w \<Rightarrow> s\<lparr> ws := Some (w\<lparr> onmessage := True \<rparr>) \<rparr>)"

definition cleanup :: "hook \<Rightarrow> hook" where
  "cleanup s =
     (case ws s of
        None \<Rightarrow> s
      | Some w \<Rightarrow>
          (fold clearTimeout (map snd (typingTimeouts s))
             (s\<lparr> ws := Some (w\<lparr> onmessage := False \<rparr>) \<rparr>))
          \<lparr> typingTimeouts := [] \<rparr>)"

text \<open>
  The three send functions the hook returns. None of them has a \<open>return\<close>, so a call
  evaluates to \<open>undefined\<close>; the first component of the result is that value.
\<close>

definition sendMessage :: "(jsval \<Rightarrow> string) \<Rightarrow> bool \<Rightarrow> jsval \<Rightarrow> string \<Rightarrow> hook \<Rightarrow> jsval \<times> hook" where
  "sendMessage JSON_stringify log message username s =
     (case sendWS JSON_stringify log message s of
        (True, s1) \<Rightarrow>
          (Undefined,
           (logEvent log ''Message sent:'' message s1)
             \<lparr> typingUsers :=
                 filter (\<lambda>user. \<not> same_value user (StrValue username)) (typingUsers s1) \<rparr>)
      | (False, s1) \<Rightarrow> (Undefined, s1))"

definition sendTypingUsers :: "(jsval \<Rightarrow> string) \<Rightarrow> bool \<Rightarrow> string \<Rightarrow> hook \<Rightarrow> jsval \<times> hook" where
  "sendTypingUsers JSON_stringify log username s =
     (Undefined,
      snd (sendWS JSON_stringify log
             (Obj [(''type'', Str ''typing''), (''username'', Str username)]) s))"

definition sendSeenBy :: "(jsval \<Rightarrow> string) \<Rightarrow> bool \<Rightarrow> number list \<Rightarrow> hook \<Rightarrow> jsval \<times> hook" where
  "sendSeenBy JSON_stringify log ids s =
     (Undefined,
      snd (sendWS JSON_stringify log
             (Obj [(''type'', Str ''seen''), (''message_ids'', Arr (map Num ids))]) s))"

subsection \<open>The event loop\<close>

text \<open>
  The platform delivers a message event to the handler in the \<open>onmessage\<close> slot, if there
  is one; an exception the handler throws is reported by the platform and the state stays
  as it was when it was thrown (the handler throws before it changes anything).
\<close>

definition deliver :: "(string \<Rightarrow> jsval option) \<Rightarrow> bool \<Rightarrow> string \<Rightarrow> hook \<Rightarrow> hook" where
  "deliver JSON_parse log e_data s =
     (case ws s of
        None \<Rightarrow> s
      | Some w \<Rightarrow>
          if onmessage w
          then (case ws_onmessage JSON_parse log e_data s of Inr s' \<Rightarrow> s' | Inl e \<Rightarrow> s)
          else s)"

text \<open>
  The platform runs the callback of a pending timeout once it is due, and forgets the
  timeout; a handle that is not pending (never set, cleared, or run already) or not yet
  due runs nothing.
\<close>

definition fire :: "nat \<Rightarrow> hook \<Rightarrow> hook" where
  "fire h s =
     (case find (\<lambda>t. fst t = h) (timers s) of
        None \<Rightarrow> s
      | Some (h', due, username) \<Rightarrow>
          if due \<le> clock s
          then typingExpired username (s\<lparr> timers := filter (\<lambda>t. fst t \<noteq> h) (timers s) \<rparr>)
          else s)"

datatype event =
    Effect
  | Cleanup
  | MessageEvent string
  | Timeout nat
  | Elapse nat
  | ReadyState nat
  | CallSendMessage jsval string
  | CallSendTypingUsers string
  | CallSendSeenBy "number list"

fun step :: "(string \<Rightarrow> jsval option) \<Rightarrow> (jsval \<Rightarrow> string) \<Rightarrow> bool \<Rightarrow> hook \<Rightarrow> event \<Rightarrow> hook" where
  "step P S log s Effect = effect s"
| "step P S log s Cleanup = cleanup s"
| "step P S log s (MessageEvent e_data) = deliver P log e_data s"
| "step P S log s (Timeout h) = fire h s"
| "step P S log s (Elapse ms) = s\<lparr> clock := clock s + ms \<rparr>"
| "step P S log s (ReadyState r) =
     (case ws s of None \<Rightarrow> s | Some w \<Rightarrow> s\<lparr> ws := Some (w\<lparr> readyState := r \<rparr>) \<rparr>)"
| "step P S log s (CallSendMessage message username) = snd (sendMessage S log message username s)"
| "step P S log s (CallSendTypingUsers username) = snd (sendTypingUsers S log username s)"
| "step P S log s (CallSendSeenBy ids) = snd (sendSeenBy S log ids s)"

definition run :: "(string \<Rightarrow> jsval option) \<Rightarrow> (jsval \<Rightarrow> string) \<Rightarrow> bool \<Rightarrow> hook \<Rightarrow> event list \<Rightarrow> hook" where
  "run P S log s evs = foldl (step P S log) s evs"

subsection \<open>Notions the properties are stated with\<close>

text \<open>The condition under which \<open>sendWS\<close> writes: a socket, in the \<open>OPEN\<close> state.\<close>

definition connection_open :: "hook \<Rightarrow> bool" where
  "connection_open s = (case ws s of None \<Rightarrow> False | Some w \<Rightarrow> readyState w = OPEN)"

definition handler_attached :: "hook \<Rightarrow> bool" where
  "handler_attached s = (case ws s of None \<Rightarrow> False | Some w \<Rightarrow> onmessage w)"

text \<open>The texts written to the socket so far.\<close>

definition wire :: "hook \<Rightarrow> string list" where
  "wire s = (case ws s of None \<Rightarrow> [] | Some w \<Rightarrow> sent w)"

text \<open>The second state is the first one but for what was written to the console.\<close>

definition only_logged :: "hook \<Rightarrow> hook \<Rightarrow> bool" where
  "only_logged s s' = (s' = s\<lparr> console := console s' \<rparr>)"

text \<open>
  The key of the registry a pending timeout belongs under, and the invariant of the
  registry: every pending timeout whose key is not \<open>__proto__\<close> is the one registered
  under its key, and without a socket there is no timeout at all.
\<close>

definition timer_key :: "timer \<Rightarrow> string" where
  "timer_key t = ToString (held_value (snd (snd t)))"

definition registered :: "hook \<Rightarrow> bool" where
  "registered s =
     ((\<forall>t \<in> set (timers s).
         timer_key t \<noteq> ''__proto__'' \<longrightarrow> map_of (typingTimeouts s) (timer_key t) = Some (fst t)) \<and>
      (ws s = None \<longrightarrow> timers s = [] \<and> typingTimeouts s = []))"


text \<open>
  The entry a parsed frame of type \<open>message\<close> stands for, and the entries a sequence of
  events stands for: one per message event whose text parses to a value of type
  \<open>message\<close>, in the order of the events.
\<close>

definition message_entry :: "jsval \<Rightarrow> ReceivedMessage" where
  "message_entry data =
     \<lparr> msg_type = ''message'', msg_id = get_property data ''id'',
       sender = get_property data ''sender'', content = get_property data ''content'',
       media = get_property data ''media'', timestamp = get_property data ''timestamp'',
       seen_by = get_property data ''seen_by'' \<rparr>"

definition message_frame :: "(string \<Rightarrow> jsval option) \<Rightarrow> event \<Rightarrow> bool" where
  "message_frame JSON_parse ev =
     (case ev of
        MessageEvent e_data \<Rightarrow>
          (case JSON_parse e_data of
             None \<Rightarrow> False
           | Some data \<Rightarrow> get_property data ''type'' = Str ''message'')
      | _ \<Rightarrow> False)"

fun arrivals :: "(string \<Rightarrow> jsval option) \<Rightarrow> event list \<Rightarrow> ReceivedMessage list" where
  "arrivals JSON_parse [] = []"
| "arrivals JSON_parse (MessageEvent e_data # evs) =
     (case JSON_parse e_data of
        None \<Rightarrow> arrivals JSON_parse evs
      | Some data \<Rightarrow>
          if get_property data ''type'' = Str ''message''
          then message_entry data # arrivals JSON_parse evs
          else arrivals JSON_parse evs)"
| "arrivals JSON_parse (ev # evs) = arrivals JSON_parse evs"

subsection \<open>Sample frames\<close>

text \<open>
  Concrete inputs the general theorems are run on: a few frame texts with the values
  \<open>JSON.parse\<close> gives for them (\<open>sample_parse\<close> is the built-in on these texts and on
  \<open>not_json\<close>, which it rejects), the texts \<open>JSON.stringify\<close> gives for three payloads, and
  an open and a closed socket.
\<close>

definition typing_alice :: string where
  "typing_alice = ''{\"type\":\"typing\",\"username\":\"alice\"}''"

definition typing_proto :: string where
  "typing_proto = ''{\"type\":\"typing\",\"username\":\"__proto__\"}''"

definition typing_a :: string where
  "typing_a = ''{\"type\":\"typing\",\"username\":[\"a\"]}''"

definition message_hi :: string where
  "message_hi = ''{\"type\":\"message\",\"id\":7,\"content\":\"hi\"}''"

definition message_yo :: string where
  "message_yo = ''{\"type\":\"message\",\"sender\":\"bob\",\"content\":\"yo\"}''"

definition seen_7 :: string where
  "seen_7 = ''{\"type\":\"seen\",\"message_ids\":[7]}''"

definition status_a_b :: string where
  "status_a_b = ''{\"type\":\"user_status\",\"active_users\":[\"a\",\"b\"]}''"

definition status_none :: string where
  "status_none = ''{\"type\":\"user_status\",\"active_users\":[]}''"

definition ping :: string where
  "ping = ''{\"type\":\"ping\"}''"

definition not_json :: string where
  "not_json = ''{\"type\":''"

definition sample_parse :: "string \<Rightarrow> jsval option" where
  "sample_parse t =
     (if t = typing_alice then
        Some (Obj [(''type'', Str ''typing''), (''username'', Str ''alice'')])
      else if t = typing_proto then
        Some (Obj [(''type'', Str ''typing''), (''username'', Str ''__proto__'')])
      else if t = typing_a then
        Some (Obj [(''type'', Str ''typing''), (''username'', Arr [Str ''a''])])
      else if t = message_hi then
        Some (Obj [(''type'', Str ''message''), (''id'', Num (Number ''7'')),
                   (''content'', Str ''hi'')])
      else if t = message_yo then
        Some (Obj [(''type'', Str ''message''), (''sender'', Str ''bob''),
                   (''content'', Str ''yo'')])
      else if t = seen_7 then
        Some (Obj [(''type'', Str ''seen''), (''message_ids'', Arr [Num (Number ''7'')])])
      else if t = status_a_b then
        Some (Obj [(''type'', Str ''user_status''), (''active_users'', Arr [Str ''a'', Str ''b''])])
      else if t = status_none then
        Some (Obj [(''type'', Str ''user_status''), (''active_users'', Arr [])])
      else if t = ping then
        Some (Obj [(''type'', Str ''ping'')])
      else None)"

definition outgoing_hi :: jsval where
  "outgoing_hi =
     Obj [(''type'', Str ''message''), (''sender_id'', Num (Number ''1'')), (''content'', Str ''hi'')]"

definition sample_stringify :: "jsval \<Rightarrow> string" where
  "sample_stringify v =
     (if v = outgoing_hi then ''{\"type\":\"message\",\"sender_id\":1,\"content\":\"hi\"}''
      else if v = Obj [(''type'', Str ''typing''), (''username'', Str ''alice'')] then typing_alice
      else if v = Obj [(''type'', Str ''seen''), (''message_ids'', Arr [Num (Number ''7'')])] then seen_7
      else [])"

definition open_socket :: WebSocket where
  "open_socket = \<lparr> readyState = 1, onmessage = False, sent = [] \<rparr>"

definition closed_socket :: WebSocket where
  "closed_socket = \<lparr> readyState = 3, onmessage = False, sent = [] \<rparr>"

section \<open>How each step moves the state\<close>

lemma logEvent_fields:
  "ws (logEvent log l p s) = ws s"
  "receivedMessages (logEvent log l p s) = receivedMessages s"
  "typingUsers (logEvent log l p s) = typingUsers s"
  "activeUsers (logEvent log l p s) = activeUsers s"
  "typingTimeouts (logEvent log l p s) = typingTimeouts s"
  "timers (logEvent log l p s) = timers s"
  "nextHandle (logEvent log l p s) = nextHandle s"
  "clock (logEvent log l p s) = clock s"
  "nextAddress (logEvent log l p s) = nextAddress s"
  by (simp_all add: logEvent_def)

lemma hold_fields:
  "ws (snd (hold v s)) = ws s"
  "receivedMessages (snd (hold v s)) = receivedMessages s"
  "typingUsers (snd (hold v s)) = typingUsers s"
  "activeUsers (snd (hold v s)) = activeUsers s"
  "typingTimeouts (snd (hold v s)) = typingTimeouts s"
  "timers (snd (hold v s)) = timers s"
  "nextHandle (snd (hold v s)) = nextHandle s"
  "clock (snd (hold v s)) = clock s"
  "console (snd (hold v s)) = console s"
  by (simp_all add: hold_def split: jsval.splits)

subsection \<open>The timer registry stays in step with the pending timeouts\<close>

lemma logEvent_only_logged: "only_logged s (logEvent log l p s)"
  by (simp add: only_logged_def logEvent_def)

lemma registered_logEvent: "registered (logEvent log l p s) = registered s"
  by (simp add: registered_def logEvent_fields)

lemma registered_hold: "registered (snd (hold v s)) = registered s"
  by (simp add: registered_def hold_fields)

lemma registered_init: "registered (init w)"
  by (simp add: registered_def init_def)

lemma timers_fold_clearTimeout:
  "timers (fold clearTimeout hs s) = filter (\<lambda>t. fst t \<notin> set hs) (timers s)"
  by (induction hs arbitrary: s) (auto simp: clearTimeout_def intro: filter_cong)

lemma fold_clearTimeout_fields:
  "ws (fold clearTimeout hs s) = ws s"
  "receivedMessages (fold clearTimeout hs s) = receivedMessages s"
  "typingUsers (fold clearTimeout hs s) = typingUsers s"
  "activeUsers (fold clearTimeout hs s) = activeUsers s"
  "typingTimeouts (fold clearTimeout hs s) = typingTimeouts s"
  "nextHandle (fold clearTimeout hs s) = nextHandle s"
  "clock (fold clearTimeout hs s) = clock s"
  "console (fold clearTimeout hs s) = console s"
  "nextAddress (fold clearTimeout hs s) = nextAddress s"
  by (induction hs arbitrary: s) (simp_all add: clearTimeout_def)

lemma registered_timers_cleared:
  assumes "registered s" and "t \<in> set (timers s)" and "timer_key t \<noteq> ''__proto__''"
  shows "fst t \<in> set (map snd (typingTimeouts s))"
proof -
  from assms have "map_of (typingTimeouts s) (timer_key t) = Some (fst t)"
    by (simp add: registered_def)
  then have "(timer_key t, fst t) \<in> set (typingTimeouts s)"
    by (rule map_of_SomeD)
  then show ?thesis by force
qed

lemma timers_cleanup:
  assumes "registered s" and "t \<in> set (timers (cleanup s))"
  shows "timer_key t = ''__proto__''"
proof (cases "ws s")
  case None
  with assms show ?thesis by (simp add: cleanup_def registered_def)
next
  case (Some w)
  with assms(2) have "t \<in> set (timers s)" and "fst t \<notin> set (map snd (typingTimeouts s))"
    by (simp_all add: cleanup_def timers_fold_clearTimeout)
  with registered_timers_cleared[OF assms(1)] show ?thesis by blast
qed

lemma typingTimeouts_cleanup: "registered s \<Longrightarrow> typingTimeouts (cleanup s) = []"
  by (cases "ws s") (simp_all add: cleanup_def registered_def)

lemma timers_cleanup_subset: "set (timers (cleanup s)) \<subseteq> set (timers s)"
  by (cases "ws s") (auto simp: cleanup_def timers_fold_clearTimeout)

lemma ws_cleanup_None: "ws (cleanup s) = None \<longleftrightarrow> ws s = None"
  by (cases "ws s") (simp_all add: cleanup_def fold_clearTimeout_fields)

lemma registered_cleanup:
  assumes "registered s"
  shows "registered (cleanup s)"
proof -
  have "timer_key t = ''__proto__''" if "t \<in> set (timers (cleanup s))" for t
    using timers_cleanup[OF assms that] .
  moreover have "ws s = None \<Longrightarrow> timers (cleanup s) = []"
    using assms by (simp add: cleanup_def registered_def)
  ultimately show ?thesis
    using typingTimeouts_cleanup[OF assms] by (auto simp: registered_def ws_cleanup_None)
qed

lemma registered_handleTyping:
  assumes "registered s" and "ws s \<noteq> None"
  shows "registered (handleTyping u s)"
proof (cases "array_includes (typingUsers s) u")
  case True
  with assms show ?thesis by (simp add: handleTyping_def)
next
  case False
  show ?thesis
  proof (cases "registry_read (typingTimeouts s) (ToString (held_value u))")
    case None
    with False assms show ?thesis
      by (auto simp: handleTyping_def setTimeout_def registered_def update_conv' timer_key_def
            registry_read_def registry_write_def split: if_splits)
  next
    case (Some h)
    with False assms show ?thesis
      by (auto simp: handleTyping_def setTimeout_def clearTimeout_def registered_def update_conv'
            timer_key_def registry_read_def registry_write_def split: if_splits)
  qed
qed

lemma registered_fire:
  assumes "registered s"
  shows "registered (fire h s)"
proof (cases "find (\<lambda>t. fst t = h) (timers s)")
  case None
  with assms show ?thesis by (simp add: fire_def)
next
  case (Some t)
  obtain h' due u where t: "t = (h', due, u)" by (cases t)
  from Some have mem: "t \<in> set (timers s)" and h: "fst t = h"
    by (auto simp: find_Some_iff)
  from assms mem have nn: "ws s \<noteq> None" by (auto simp: registered_def)
  show ?thesis
  proof (cases "due \<le> clock s")
    case False
    with Some t assms show ?thesis by (simp add: fire_def)
  next
    case True
    have "map_of (AList.delete (timer_key t) (typingTimeouts s)) (timer_key t') = Some (fst t')"
      if "t' \<in> set (timers s)" "fst t' \<noteq> h" "timer_key t' \<noteq> ''__proto__''" for t'
    proof -
      from assms that have r': "map_of (typingTimeouts s) (timer_key t') = Some (fst t')"
        by (simp add: registered_def)
      have "timer_key t' \<noteq> timer_key t"
      proof
        assume eq: "timer_key t' = timer_key t"
        with that(3) assms mem have "map_of (typingTimeouts s) (timer_key t) = Some (fst t)"
          by (simp add: registered_def)
        with r' eq h that(2) show False by simp
      qed
      with r' show ?thesis by (simp add: delete_conv')
    qed
    with True Some t nn show ?thesis
      by (auto simp: fire_def typingExpired_def registered_def timer_key_def)
  qed
qed

lemma registered_sendWS: "registered (snd (sendWS S log p s)) = registered s"
  by (auto simp: sendWS_def registered_def logEvent_fields split: option.splits)

lemma ws_hold_logEvent: "ws (snd (hold v (logEvent log l p s))) = ws s"
  by (simp add: hold_fields logEvent_fields)

lemma registered_deliver:
  assumes "registered s"
  shows "registered (deliver P log d s)"
proof (cases "ws s")
  case None
  then show ?thesis using assms by (simp add: deliver_def)
next
  case (Some w)
  have typing: "registered (handleTyping (fst (hold v (logEvent log l p s))) (snd (hold v (logEvent log l p s))))"
    for v l p
    using assms Some
    by (intro registered_handleTyping) (simp_all add: registered_hold registered_logEvent ws_hold_logEvent)
  have other: "registered (logEvent log l p s)" for l p
    using assms by (simp add: registered_logEvent)
  have upd: "registered ((logEvent log l p s)\<lparr> receivedMessages := ms \<rparr>)"
            "registered ((logEvent log l p s)\<lparr> activeUsers := a \<rparr>)" for l p ms a
    using assms by (simp_all add: registered_def logEvent_fields)
  show ?thesis
    using assms Some typing other upd
    by (simp add: deliver_def ws_onmessage_def split_beta split: option.splits)
qed

lemma registered_step: "registered s \<Longrightarrow> registered (step P S log s ev)"
proof (cases ev)
  case Effect
  assume "registered s" with Effect show ?thesis
    by (auto simp: effect_def registered_def split: option.splits)
next
  case Cleanup
  assume "registered s" with Cleanup show ?thesis by (simp add: registered_cleanup)
next
  case (MessageEvent d)
  assume "registered s" with MessageEvent show ?thesis by (simp add: registered_deliver)
next
  case (Timeout h)
  assume "registered s" with Timeout show ?thesis by (simp add: registered_fire)
next
  case (Elapse n)
  assume "registered s" with Elapse show ?thesis by (simp add: registered_def)
next
  case (ReadyState r)
  assume "registered s" with ReadyState show ?thesis
    by (auto simp: registered_def split: option.splits)
next
  case (CallSendMessage m u)
  assume "registered s"
  then have "registered (snd (sendWS S log m s))" by (simp add: registered_sendWS)
  with CallSendMessage show ?thesis
    by (cases "sendWS S log m s") (auto simp: sendMessage_def registered_def logEvent_fields split: bool.splits)
next
  case (CallSendTypingUsers u)
  assume "registered s" with CallSendTypingUsers show ?thesis
    by (simp add: sendTypingUsers_def registered_sendWS)
next
  case (CallSendSeenBy ids)
  assume "registered s" with CallSendSeenBy show ?thesis
    by (simp add: sendSeenBy_def registered_sendWS)
qed

lemma registered_run: "registered s \<Longrightarrow> registered (run P S log s evs)"
  unfolding run_def by (induction evs arbitrary: s) (simp_all add: registered_step)

text \<open>
  Teardown cancels every pending timeout but those of the username \<open>__proto__\<close>, which
  were never stored in the registry.
\<close>

lemma cleanup_cancels_all_but_proto:
  assumes "t \<in> set (timers (cleanup (run P S log (init w) evs)))"
  shows "timer_key t = ''__proto__''"
  using timers_cleanup[OF registered_run[OF registered_init] assms] .

subsection \<open>The typing set, step by step\<close>



lemma same_value_StrValue: "same_value user (StrValue t) = (user = StrValue t)"
  by (cases user) auto




lemma array_includes_StrValue: "array_includes xs (StrValue t) = (StrValue t \<in> set xs)"
  by (auto simp: array_includes_def list_ex_iff same_value_StrValue)














lemma handleTyping_when_present:
  "array_includes (typingUsers s) username \<Longrightarrow> handleTyping username s = s"
  by (simp add: handleTyping_def)

subsection \<open>The message list, step by step\<close>

lemma receivedMessages_sendWS: "receivedMessages (snd (sendWS S log p s)) = receivedMessages s"
  by (simp add: sendWS_def logEvent_def split: option.splits)

lemma receivedMessages_handleTyping: "receivedMessages (handleTyping u s) = receivedMessages s"
  by (simp add: handleTyping_def setTimeout_def clearTimeout_def split: option.splits)

lemma receivedMessages_fire: "receivedMessages (fire h s) = receivedMessages s"
  by (simp add: fire_def typingExpired_def split: option.splits)

lemma receivedMessages_deliver:
  "receivedMessages (deliver P log d s) =
     receivedMessages s @ (if handler_attached s then arrivals P [MessageEvent d] else [])"
  by (auto simp: deliver_def ws_onmessage_def handler_attached_def logEvent_fields hold_fields
        receivedMessages_handleTyping message_entry_def split_beta split: option.splits)

lemma receivedMessages_step:
  "receivedMessages (step P S log s ev) =
     receivedMessages s @ (if handler_attached s then arrivals P [ev] else [])"
proof (cases ev)
  case (MessageEvent d)
  then show ?thesis by (simp only: step.simps receivedMessages_deliver)
next
  case (CallSendMessage m u)
  then show ?thesis
    by (cases "sendWS S log m s")
       (use receivedMessages_sendWS[of S log m s] in
         \<open>auto simp: sendMessage_def logEvent_fields split: bool.splits\<close>)
qed (auto simp: effect_def cleanup_def fold_clearTimeout_fields receivedMessages_fire
       sendTypingUsers_def sendSeenBy_def receivedMessages_sendWS split: option.splits)

lemma handler_attached_sendWS: "handler_attached (snd (sendWS S log p s)) = handler_attached s"
  by (simp add: sendWS_def logEvent_def handler_attached_def split: option.splits)

lemma ws_handleTyping: "ws (handleTyping u s) = ws s"
  by (simp add: handleTyping_def setTimeout_def clearTimeout_def split: option.splits)

lemma ws_deliver: "ws (deliver P log d s) = ws s"
  by (auto simp: deliver_def ws_onmessage_def logEvent_fields hold_fields ws_handleTyping
        split_beta split: option.splits)

lemma ws_fire: "ws (fire h s) = ws s"
  by (simp add: fire_def typingExpired_def split: option.splits)

lemma handler_attached_step:
  assumes "handler_attached s" and "ev \<noteq> Cleanup"
  shows "handler_attached (step P S log s ev)"
proof (cases ev)
  case (CallSendMessage m u)
  with assms handler_attached_sendWS[of S log m s] show ?thesis
    by (cases "sendWS S log m s")
       (auto simp: sendMessage_def handler_attached_def logEvent_fields split: bool.splits)
qed (use assms in \<open>auto simp: handler_attached_def effect_def ws_deliver ws_fire
       sendTypingUsers_def sendSeenBy_def handler_attached_sendWS [unfolded handler_attached_def]
       split: option.splits\<close>)

lemma arrivals_append: "arrivals P (xs @ ys) = arrivals P xs @ arrivals P ys"
  by (induction P xs rule: arrivals.induct) (auto split: option.splits)

lemma arrivals_Cons: "arrivals P (ev # evs) = arrivals P [ev] @ arrivals P evs"
  using arrivals_append[of P "[ev]" evs] by simp

lemma receivedMessages_run:
  assumes "handler_attached s" and "Cleanup \<notin> set evs"
  shows "receivedMessages (run P S log s evs) = receivedMessages s @ arrivals P evs"
  using assms
proof (induction evs arbitrary: s)
  case Nil
  then show ?case by (simp add: run_def)
next
  case (Cons ev evs)
  from Cons.prems have att: "handler_attached (step P S log s ev)"
    by (auto intro: handler_attached_step)
  have "receivedMessages (run P S log (step P S log s ev) evs)
          = receivedMessages (step P S log s ev) @ arrivals P evs"
    using Cons.IH[OF att] Cons.prems by simp
  with Cons.prems show ?case
    by (simp add: run_def receivedMessages_step arrivals_Cons[of P ev evs])
qed

lemma length_arrivals: "length (arrivals P evs) = length (filter (message_frame P) evs)"
  by (induction P evs rule: arrivals.induct) (auto simp: message_frame_def split: option.splits)

lemma prefix_run: "prefix (receivedMessages s) (receivedMessages (run P S log s evs))"
proof (induction evs arbitrary: s)
  case Nil
  then show ?case by (simp add: run_def)
next
  case (Cons ev evs)
  have "prefix (receivedMessages s) (receivedMessages (step P S log s ev))"
    by (simp add: receivedMessages_step)
  also have "prefix \<dots> (receivedMessages (run P S log (step P S log s ev) evs))"
    by (rule Cons.IH)
  finally show ?case by (simp add: run_def)
qed

section \<open>The properties of the specification\<close>

lemmas sample_frames =
  typing_alice_def typing_proto_def typing_a_def message_hi_def message_yo_def seen_7_def status_a_b_def status_none_def
  ping_def not_json_def

lemmas model_defs =
  run_def init_def effect_def cleanup_def deliver_def ws_onmessage_def handleTyping_def
  hold_def registry_read_def registry_write_def array_includes_def
  setTimeout_def clearTimeout_def logEvent_def fire_def typingExpired_def sendWS_def
  sendMessage_def sendTypingUsers_def sendSeenBy_def nullish_def OPEN_def
  open_socket_def closed_socket_def sample_parse_def sample_stringify_def outgoing_hi_def

subsection \<open>Frames that are not JSON\<close>

text \<open>
  C5. A frame whose text \<open>JSON.parse\<close> rejects is logged and dropped: the handler returns
  normally (no exception reaches the platform), and messages, typing set, active users,
  timer registry, pending timeouts and socket are as before; only the console may have
  grown.
\<close>

theorem invalid_json_is_discarded:
  assumes "JSON_parse e_data = None"
  shows "ws_onmessage JSON_parse log e_data s = Inr (logEvent log ''Invalid JSON:'' (Str e_data) s)
       \<and> only_logged s (logEvent log ''Invalid JSON:'' (Str e_data) s)
       \<and> only_logged s (deliver JSON_parse log e_data s)"
  using assms
  by (simp add: ws_onmessage_def deliver_def logEvent_only_logged split: option.splits)
     (simp add: only_logged_def)

theorem invalid_json_is_discarded_witness:
  "sample_parse not_json = None
   \<and> ws_onmessage sample_parse True not_json (init (Some open_socket))
       = Inr ((init (Some open_socket))\<lparr> console := [(''Invalid JSON:'', Str not_json)] \<rparr>)
   \<and> deliver sample_parse True not_json (effect (init (Some open_socket)))
       = (effect (init (Some open_socket)))\<lparr> console := [(''Invalid JSON:'', Str not_json)] \<rparr>"
  using invalid_json_is_discarded
          [where JSON_parse = sample_parse and e_data = not_json and log = True
             and s = "init (Some open_socket)"]
        invalid_json_is_discarded
          [where JSON_parse = sample_parse and e_data = not_json and log = True
             and s = "effect (init (Some open_socket))"]
  by (simp add: model_defs sample_frames)

subsection \<open>Frames of type \<open>seen\<close> and of unknown type\<close>

text \<open>
  C8. A frame that parses and whose \<open>type\<close> is none of \<open>message\<close>, \<open>typing\<close> and
  \<open>user_status\<close> (so: \<open>seen\<close>, any other discriminator, or none) changes neither the
  message list, the typing set, the active users nor the timer registry: the state after
  it is the state before it, but for the console. The handler returns normally, except on
  the payload \<open>null\<close>, where reading \<open>data.type\<close> throws before anything is changed.
\<close>

theorem seen_and_unknown_frames_change_nothing:
  assumes "JSON_parse e_data = Some data"
    and "get_property data ''type'' \<noteq> Str ''message''"
    and "get_property data ''type'' \<noteq> Str ''typing''"
    and "get_property data ''type'' \<noteq> Str ''user_status''"
  shows "(case ws_onmessage JSON_parse log e_data s of
            Inr s' \<Rightarrow> only_logged s s'
          | Inl e \<Rightarrow> data = Null \<or> data = Undefined)
       \<and> only_logged s (deliver JSON_parse log e_data s)"
  using assms
  by (auto simp: ws_onmessage_def deliver_def logEvent_only_logged split: option.splits)
     (simp_all add: only_logged_def)

theorem seen_and_unknown_frames_change_nothing_witness:
  "sample_parse seen_7 = Some (Obj [(''type'', Str ''seen''), (''message_ids'', Arr [Num (Number ''7'')])])
   \<and> sample_parse ping = Some (Obj [(''type'', Str ''ping'')])
   \<and> run sample_parse sample_stringify False (init (Some open_socket))
        [Effect, MessageEvent typing_alice, MessageEvent seen_7, MessageEvent ping]
     = run sample_parse sample_stringify False (init (Some open_socket))
        [Effect, MessageEvent typing_alice]"
  using seen_and_unknown_frames_change_nothing
          [where JSON_parse = sample_parse and e_data = seen_7 and log = False
             and data = "Obj [(''type'', Str ''seen''), (''message_ids'', Arr [Num (Number ''7'')])]"
             and s = "run sample_parse sample_stringify False (init (Some open_socket))
                        [Effect, MessageEvent typing_alice]"]
        seen_and_unknown_frames_change_nothing
          [where JSON_parse = sample_parse and e_data = ping and log = False
             and data = "Obj [(''type'', Str ''ping'')]"
             and s = "run sample_parse sample_stringify False (init (Some open_socket))
                        [Effect, MessageEvent typing_alice]"]
  by (simp add: model_defs sample_frames)

subsection \<open>Frames of type \<open>user_status\<close>\<close>

text \<open>
  C7. A \<open>user_status\<close> frame sets the active users to the frame's \<open>active_users\<close>, or to
  the empty array when that field is absent (or \<open>null\<close>); the new value does not depend on
  the previous one, and nothing else changes but the console. After a frame listing
  \<open>a\<close> and \<open>b\<close> and then a frame listing nobody, the active users are empty.
\<close>

theorem user_status_replaces_active_users:
  assumes "JSON_parse e_data = Some data"
    and "get_property data ''type'' = Str ''user_status''"
  shows "\<exists>s'. ws_onmessage JSON_parse log e_data s = Inr s'
           \<and> activeUsers s' =
               (case get_property data ''active_users'' of
                  Undefined \<Rightarrow> Arr [] | Null \<Rightarrow> Arr [] | users \<Rightarrow> users)
           \<and> only_logged (s\<lparr> activeUsers := activeUsers s' \<rparr>) s'"
  using assms
  by (auto simp: ws_onmessage_def logEvent_def nullish_def only_logged_def split: jsval.splits)

theorem user_status_replaces_active_users_witness:
  "sample_parse status_none = Some (Obj [(''type'', Str ''user_status''), (''active_users'', Arr [])])
   \<and> activeUsers (run sample_parse sample_stringify False (init (Some open_socket))
        [Effect, MessageEvent status_a_b]) = Arr [Str ''a'', Str ''b'']
   \<and> activeUsers (run sample_parse sample_stringify False (init (Some open_socket))
        [Effect, MessageEvent status_a_b, MessageEvent status_none]) = Arr []"
  using user_status_replaces_active_users
          [where JSON_parse = sample_parse and e_data = status_none and log = False
             and data = "Obj [(''type'', Str ''user_status''), (''active_users'', Arr [])]"
             and s = "run sample_parse sample_stringify False (init (Some open_socket))
                        [Effect, MessageEvent status_a_b]"]
  by (simp add: model_defs sample_frames)

subsection \<open>Frames of type \<open>message\<close> are taken as they come\<close>

text \<open>
  C10. The handler checks no field of a \<open>message\<close> frame: whatever else the payload holds,
  one entry is appended, its \<open>type\<close> is \<open>message\<close>, and its \<open>sender\<close> and \<open>content\<close> are the
  frame's, \<open>undefined\<close> when the frame has none.
\<close>

theorem message_frames_are_not_validated:
  assumes "JSON_parse e_data = Some data"
    and "get_property data ''type'' = Str ''message''"
  shows "\<exists>s'. ws_onmessage JSON_parse log e_data s = Inr s'
           \<and> receivedMessages s' = receivedMessages s @ [message_entry data]
           \<and> msg_type (message_entry data) = ''message''
           \<and> sender (message_entry data) = get_property data ''sender''
           \<and> content (message_entry data) = get_property data ''content''
           \<and> (\<forall>kvs. data = Obj kvs \<and> map_of kvs ''sender'' = None
                  \<longrightarrow> sender (message_entry data) = Undefined)
           \<and> (\<forall>kvs. data = Obj kvs \<and> map_of kvs ''content'' = None
                  \<longrightarrow> content (message_entry data) = Undefined)"
  using assms
  by (auto simp: ws_onmessage_def logEvent_def message_entry_def)

theorem message_frames_are_not_validated_witness:
  "sample_parse message_hi =
     Some (Obj [(''type'', Str ''message''), (''id'', Num (Number ''7'')), (''content'', Str ''hi'')])
   \<and> receivedMessages (run sample_parse sample_stringify False (init (Some open_socket))
        [Effect, MessageEvent message_hi])
     = [\<lparr> msg_type = ''message'', msg_id = Num (Number ''7''), sender = Undefined,
          content = Str ''hi'', media = Undefined, timestamp = Undefined, seen_by = Undefined \<rparr>]"
  using message_frames_are_not_validated
          [where JSON_parse = sample_parse and e_data = message_hi and log = False
             and data = "Obj [(''type'', Str ''message''), (''id'', Num (Number ''7'')),
                              (''content'', Str ''hi'')]"
             and s = "effect (init (Some open_socket))"]
  by (simp add: model_defs sample_frames message_entry_def)

subsection \<open>The message list\<close>

text \<open>
  C4. While the handler stays attached, the message list after any sequence of events is
  the list before it followed by one entry per message event whose text parses to a value
  of type \<open>message\<close>, in the order of arrival; an entry holds the frame's \<open>id\<close>, \<open>sender\<close>,
  \<open>content\<close>, \<open>media\<close>, \<open>seen_by\<close> and \<open>timestamp\<close>, \<open>undefined\<close> where the frame has none.
  No event at all (frame, timeout, send, effect, cleanup) removes or changes an entry:
  the list before a step or a run is a prefix of the list after it.
\<close>

theorem messages_are_the_message_frames_in_order:
  assumes "handler_attached s" and "Cleanup \<notin> set evs"
  shows "receivedMessages (run JSON_parse JSON_stringify log s evs)
           = receivedMessages s @ arrivals JSON_parse evs
       \<and> length (arrivals JSON_parse evs) = length (filter (message_frame JSON_parse) evs)
       \<and> prefix (receivedMessages t) (receivedMessages (step JSON_parse JSON_stringify log t ev))
       \<and> prefix (receivedMessages t) (receivedMessages (run JSON_parse JSON_stringify log t evs'))"
  using assms
  by (simp add: receivedMessages_run length_arrivals prefix_run)
     (simp add: receivedMessages_step)

theorem messages_are_the_message_frames_in_order_witness:
  "handler_attached (effect (init (Some open_socket)))
   \<and> receivedMessages (run sample_parse sample_stringify False (effect (init (Some open_socket)))
        [MessageEvent message_hi, MessageEvent not_json, MessageEvent typing_alice,
         CallSendMessage outgoing_hi ''alice'', MessageEvent message_yo, MessageEvent seen_7,
         Elapse 3000, Timeout 1])
     = [\<lparr> msg_type = ''message'', msg_id = Num (Number ''7''), sender = Undefined,
          content = Str ''hi'', media = Undefined, timestamp = Undefined, seen_by = Undefined \<rparr>,
        \<lparr> msg_type = ''message'', msg_id = Undefined, sender = Str ''bob'',
          content = Str ''yo'', media = Undefined, timestamp = Undefined, seen_by = Undefined \<rparr>]"
  using messages_are_the_message_frames_in_order
          [where s = "effect (init (Some open_socket))" and JSON_parse = sample_parse
             and JSON_stringify = sample_stringify and log = False
             and evs = "[MessageEvent message_hi, MessageEvent not_json, MessageEvent typing_alice,
                         CallSendMessage outgoing_hi ''alice'', MessageEvent message_yo,
                         MessageEvent seen_7, Elapse 3000, Timeout 1]"
             and t = "init None" and ev = Effect and evs' = "[]"]
  by (simp add: model_defs sample_frames handler_attached_def message_entry_def)

subsection \<open>Sending a message\<close>

text \<open>
  C3. \<open>sendMessage(message, username)\<close> on an open connection writes the payload (one
  text more on the socket) and removes \<open>username\<close> from the typing set at once, leaving
  the timer registry and the pending timeouts as they are; when the connection is not
  open it writes nothing and changes nothing but the console.
\<close>

theorem sendMessage_writes_and_clears_only_when_open:
  "(connection_open s \<longrightarrow>
      wire (snd (sendMessage JSON_stringify log message username s))
        = wire s @ [case message of Str t \<Rightarrow> t | _ \<Rightarrow> JSON_stringify message]
      \<and> typingUsers (snd (sendMessage JSON_stringify log message username s))
        = filter (\<lambda>user. user \<noteq> StrValue username) (typingUsers s)
      \<and> StrValue username
          \<notin> set (typingUsers (snd (sendMessage JSON_stringify log message username s)))
      \<and> \<not> array_includes (typingUsers (snd (sendMessage JSON_stringify log message username s)))
            (StrValue username)
      \<and> typingTimeouts (snd (sendMessage JSON_stringify log message username s)) = typingTimeouts s
      \<and> timers (snd (sendMessage JSON_stringify log message username s)) = timers s
      \<and> receivedMessages (snd (sendMessage JSON_stringify log message username s)) = receivedMessages s
      \<and> activeUsers (snd (sendMessage JSON_stringify log message username s)) = activeUsers s)
   \<and> (\<not> connection_open s \<longrightarrow>
      only_logged s (snd (sendMessage JSON_stringify log message username s))
      \<and> wire (snd (sendMessage JSON_stringify log message username s)) = wire s)"
  by (cases "ws s")
     (auto simp: connection_open_def sendMessage_def sendWS_def logEvent_def wire_def only_logged_def
        same_value_StrValue array_includes_StrValue)

theorem sendMessage_writes_and_clears_only_when_open_witness:
  "connection_open (run sample_parse sample_stringify False (init (Some open_socket))
      [Effect, MessageEvent typing_alice])
   \<and> snd (sendMessage sample_stringify False outgoing_hi ''alice''
        (run sample_parse sample_stringify False (init (Some open_socket))
           [Effect, MessageEvent typing_alice]))
     = (run sample_parse sample_stringify False (init (Some open_socket))
           [Effect, MessageEvent typing_alice])
       \<lparr> ws := Some \<lparr> readyState = 1, onmessage = True,
                      sent = [''{\"type\":\"message\",\"sender_id\":1,\"content\":\"hi\"}''] \<rparr>,
         typingUsers := [] \<rparr>
   \<and> timers (snd (sendMessage sample_stringify False outgoing_hi ''alice''
        (run sample_parse sample_stringify False (init (Some open_socket))
           [Effect, MessageEvent typing_alice]))) = [(1, 3000, StrValue ''alice'')]
   \<and> \<not> connection_open (run sample_parse sample_stringify False (init (Some closed_socket))
      [Effect, MessageEvent typing_alice])
   \<and> snd (sendMessage sample_stringify False outgoing_hi ''alice''
        (run sample_parse sample_stringify False (init (Some closed_socket))
           [Effect, MessageEvent typing_alice]))
     = run sample_parse sample_stringify False (init (Some closed_socket))
           [Effect, MessageEvent typing_alice]"
  using sendMessage_writes_and_clears_only_when_open
          [where s = "run sample_parse sample_stringify False (init (Some open_socket))
                        [Effect, MessageEvent typing_alice]"
             and JSON_stringify = sample_stringify and log = False and message = outgoing_hi
             and username = "''alice''"]
        sendMessage_writes_and_clears_only_when_open
          [where s = "run sample_parse sample_stringify False (init (Some closed_socket))
                        [Effect, MessageEvent typing_alice]"
             and JSON_stringify = sample_stringify and log = False and message = outgoing_hi
             and username = "''alice''"]
  by (simp add: model_defs sample_frames connection_open_def)

subsection \<open>What the send functions return\<close>

text \<open>
  C2, as stated, fails: the three send functions have no \<open>return\<close> statement, so a call
  evaluates to \<open>undefined\<close> on a closed connection (not \<open>false\<close>) and on an open one
  (not \<open>true\<close>).
\<close>

theorem send_functions_return_no_boolean:
  "fst (sendMessage sample_stringify False outgoing_hi ''alice'' (init (Some closed_socket))) \<noteq> Bool False
   \<and> fst (sendTypingUsers sample_stringify False ''alice'' (init (Some closed_socket))) \<noteq> Bool False
   \<and> fst (sendSeenBy sample_stringify False [Number ''7''] (init (Some closed_socket))) \<noteq> Bool False
   \<and> fst (sendMessage sample_stringify False outgoing_hi ''alice'' (init (Some open_socket))) \<noteq> Bool True
   \<and> fst (sendTypingUsers sample_stringify False ''alice'' (init (Some open_socket))) \<noteq> Bool True
   \<and> fst (sendSeenBy sample_stringify False [Number ''7''] (init (Some open_socket))) \<noteq> Bool True"
  by (simp add: model_defs)

text \<open>
  C2, amended. Each of the three send functions returns \<open>undefined\<close>, whether the
  connection is open or not; the boolean is the result of the inner \<open>sendWS\<close> only. When
  the connection is not open the call writes no frame; when it is open the call writes
  exactly one: the payload itself for \<open>sendMessage\<close>, \<open>{type: "typing", username}\<close> for
  \<open>sendTypingUsers\<close>, \<open>{type: "seen", message_ids: ids}\<close> for \<open>sendSeenBy\<close>.
\<close>

theorem send_functions_write_one_frame_when_open:
  "fst (sendMessage JSON_stringify log message username s) = Undefined
   \<and> fst (sendTypingUsers JSON_stringify log username s) = Undefined
   \<and> fst (sendSeenBy JSON_stringify log ids s) = Undefined
   \<and> fst (sendWS JSON_stringify log payload s) = connection_open s
   \<and> (\<not> connection_open s \<longrightarrow>
        wire (snd (sendMessage JSON_stringify log message username s)) = wire s
        \<and> wire (snd (sendTypingUsers JSON_stringify log username s)) = wire s
        \<and> wire (snd (sendSeenBy JSON_stringify log ids s)) = wire s)
   \<and> (connection_open s \<longrightarrow>
        wire (snd (sendMessage JSON_stringify log message username s))
          = wire s @ [case message of Str t \<Rightarrow> t | _ \<Rightarrow> JSON_stringify message]
        \<and> wire (snd (sendTypingUsers JSON_stringify log username s))
          = wire s @ [JSON_stringify (Obj [(''type'', Str ''typing''), (''username'', Str username)])]
        \<and> wire (snd (sendSeenBy JSON_stringify log ids s))
          = wire s @ [JSON_stringify (Obj [(''type'', Str ''seen''), (''message_ids'', Arr (map Num ids))])])"
  by (cases "ws s")
     (auto simp: connection_open_def sendMessage_def sendTypingUsers_def sendSeenBy_def sendWS_def
        logEvent_def wire_def)

theorem send_functions_write_one_frame_when_open_witness:
  "connection_open (init (Some open_socket))
   \<and> wire (snd (sendMessage sample_stringify False outgoing_hi ''alice'' (init (Some open_socket))))
       = [''{\"type\":\"message\",\"sender_id\":1,\"content\":\"hi\"}'']
   \<and> wire (snd (sendTypingUsers sample_stringify False ''alice'' (init (Some open_socket))))
       = [typing_alice]
   \<and> wire (snd (sendSeenBy sample_stringify False [Number ''7''] (init (Some open_socket))))
       = [seen_7]
   \<and> \<not> connection_open (init (Some closed_socket))
   \<and> wire (snd (sendMessage sample_stringify False outgoing_hi ''alice'' (init (Some closed_socket)))) = []
   \<and> wire (snd (sendTypingUsers sample_stringify False ''alice'' (init (Some closed_socket)))) = []
   \<and> wire (snd (sendSeenBy sample_stringify False [Number ''7''] (init (Some closed_socket)))) = []
   \<and> \<not> connection_open (init None)
   \<and> wire (snd (sendMessage sample_stringify False outgoing_hi ''alice'' (init None))) = []"
  using send_functions_write_one_frame_when_open
          [where s = "init (Some open_socket)" and JSON_stringify = sample_stringify
             and log = False and message = outgoing_hi and username = "''alice''"
             and ids = "[Number ''7'']" and payload = outgoing_hi]
        send_functions_write_one_frame_when_open
          [where s = "init (Some closed_socket)" and JSON_stringify = sample_stringify
             and log = False and message = outgoing_hi and username = "''alice''"
             and ids = "[Number ''7'']" and payload = outgoing_hi]
        send_functions_write_one_frame_when_open
          [where s = "init None" and JSON_stringify = sample_stringify
             and log = False and message = outgoing_hi and username = "''alice''"
             and ids = "[Number ''7'']" and payload = outgoing_hi]
  by (simp add: model_defs sample_frames connection_open_def wire_def)

subsection \<open>The typing set\<close>




text \<open>
  C1. The program run on two \<open>typing\<close> frames for \<open>alice\<close>, 2000 ms apart. The first
  starts the timeout 1, due at 3000. The second finds \<open>alice\<close> in the typing set and
  returns at once: the pending timeout is still the first one, due at 3000, and no other
  was started. At 3000, only 1000 ms after the last frame, the timeout runs and \<open>alice\<close>
  leaves the typing set.
\<close>

theorem second_typing_frame_does_not_restart_timer:
  "timers (run sample_parse sample_stringify False (init (Some open_socket))
      [Effect, MessageEvent typing_alice]) = [(1, 3000, StrValue ''alice'')]
   \<and> timers (run sample_parse sample_stringify False (init (Some open_socket))
      [Effect, MessageEvent typing_alice, Elapse 2000, MessageEvent typing_alice])
       = [(1, 3000, StrValue ''alice'')]
   \<and> typingUsers (run sample_parse sample_stringify False (init (Some open_socket))
      [Effect, MessageEvent typing_alice, Elapse 2000, MessageEvent typing_alice, Elapse 1000])
       = [StrValue ''alice'']
   \<and> clock (run sample_parse sample_stringify False (init (Some open_socket))
      [Effect, MessageEvent typing_alice, Elapse 2000, MessageEvent typing_alice, Elapse 1000,
       Timeout 1]) = 3000
   \<and> typingUsers (run sample_parse sample_stringify False (init (Some open_socket))
      [Effect, MessageEvent typing_alice, Elapse 2000, MessageEvent typing_alice, Elapse 1000,
       Timeout 1]) = []"
  by (simp add: model_defs sample_frames)

subsection \<open>Teardown\<close>

text \<open>
  C6. The program run on a \<open>typing\<close> frame for the username \<open>__proto__\<close>, then torn down.
  The frame starts the timeout 1, due at 3000, but the assignment
  \<open>typingTimeouts.current["__proto__"] = handle\<close> stores nothing, so the registry stays
  empty. The cleanup clears the timeouts of the registry: timeout 1 is not among them and
  is still pending after it. At 3000 it runs and removes \<open>__proto__\<close> from the typing
  set: a change of the state after teardown.
\<close>

theorem teardown_misses_the_proto_timeout:
  "timers (run sample_parse sample_stringify False (init (Some open_socket))
      [Effect, MessageEvent typing_proto]) = [(1, 3000, StrValue ''__proto__'')]
   \<and> typingTimeouts (run sample_parse sample_stringify False (init (Some open_socket))
      [Effect, MessageEvent typing_proto]) = []
   \<and> timers (run sample_parse sample_stringify False (init (Some open_socket))
      [Effect, MessageEvent typing_proto, Cleanup]) = [(1, 3000, StrValue ''__proto__'')]
   \<and> \<not> handler_attached (run sample_parse sample_stringify False (init (Some open_socket))
      [Effect, MessageEvent typing_proto, Cleanup])
   \<and> typingUsers (run sample_parse sample_stringify False (init (Some open_socket))
      [Effect, MessageEvent typing_proto, Cleanup, Elapse 3000])
       = [StrValue ''__proto__'']
   \<and> typingUsers (run sample_parse sample_stringify False (init (Some open_socket))
      [Effect, MessageEvent typing_proto, Cleanup, Elapse 3000, Timeout 1]) = []"
  by (simp add: model_defs sample_frames handler_attached_def)

end
